theory Spec2Isabelle
  imports Complex_Main
begin

section \<open>Sentinel Gold Trader: the risk-gated execution cycle\<close>

text \<open>
  A shallow embedding of \<^verbatim>\<open>src/mt5_trading_system.py\<close>. Python floats are idealised as
  \<^typ>\<open>real\<close>: sums, products and comparisons are exact, there is no overflow, infinity or
  NaN. Everything proved below is about the control flow and the exact arithmetic of the
  code under that idealisation. A fault that Python raises is a value of \<open>py_error\<close>; an
  external call (terminal, HTTP, file system) either raises or returns, and its outcome is
  an input of the model.
\<close>

subsection \<open>Faults and external calls\<close>

datatype py_error = ZeroDivisionError

datatype 'a reply = Raised | Returned 'a

text \<open>Float true division: \<^verbatim>\<open>a / b\<close> raises on a zero divisor.\<close>

definition py_truediv :: "real \<Rightarrow> real \<Rightarrow> py_error + real" where
  "py_truediv a b = (if b = 0 then Inl ZeroDivisionError else Inr (a / b))"

text \<open>
  \<^verbatim>\<open>round(x, 2)\<close>: the nearest multiple of 0.01, an exact tie going to the even
  neighbour.
\<close>

definition round_half_even :: "real \<Rightarrow> int" where
  "round_half_even x =
     (let f = \<lfloor>x\<rfloor>; d = x - of_int f
      in if d < 1 / 2 then f
         else if 1 / 2 < d then f + 1
         else if even f then f else f + 1)"

definition py_round2 :: "real \<Rightarrow> real" where
  "py_round2 x = of_int (round_half_even (x * 100)) / 100"

subsection \<open>Configuration\<close>

text \<open>
  \<^verbatim>\<open>ConfigManager\<close>: the options read from \<^verbatim>\<open>config.json\<close>. A key that is absent is
  \<open>None\<close>; \<^verbatim>\<open>config.get(key, default)\<close> is \<open>config_get\<close>. Each option has the type the
  code uses it at.
\<close>

record config =
  cfg_alpha_vantage_api_key :: "string option"
  cfg_finnhub_api_key :: "string option"
  cfg_polygon_api_key :: "string option"
  cfg_max_risk_per_trade :: "real option"
  cfg_max_positions :: "int option"
  cfg_max_daily_loss :: "real option"
  cfg_max_drawdown :: "real option"
  cfg_min_lot_size :: "real option"
  cfg_max_lot_size :: "real option"
  cfg_default_sl_points :: "real option"
  cfg_default_tp_points :: "real option"
  cfg_magic_number :: "int option"
  cfg_mt5_login :: "int option"
  cfg_mt5_password :: "string option"
  cfg_mt5_server :: "string option"
  cfg_price_check_interval :: "real option"

definition config_get :: "'a option \<Rightarrow> 'a \<Rightarrow> 'a" where
  "config_get v dflt = (case v of None \<Rightarrow> dflt | Some x \<Rightarrow> x)"

text \<open>A \<^verbatim>\<open>config.json\<close> that sets none of the options: every \<^verbatim>\<open>get\<close> yields its default.\<close>

definition empty_config :: config where
  "empty_config =
     \<lparr>cfg_alpha_vantage_api_key = None, cfg_finnhub_api_key = None,
      cfg_polygon_api_key = None, cfg_max_risk_per_trade = None, cfg_max_positions = None,
      cfg_max_daily_loss = None, cfg_max_drawdown = None, cfg_min_lot_size = None,
      cfg_max_lot_size = None, cfg_default_sl_points = None, cfg_default_tp_points = None,
      cfg_magic_number = None, cfg_mt5_login = None, cfg_mt5_password = None,
      cfg_mt5_server = None, cfg_price_check_interval = None\<rparr>"

subsection \<open>Risk gate (\<^verbatim>\<open>RiskManager\<close>)\<close>

record RiskManager =
  rm_config :: config
  max_risk_per_trade :: real
  max_positions :: int
  max_daily_loss :: real
  max_drawdown :: real
  daily_loss :: real
  daily_trades :: int
  day_start_balance :: real

text \<open>\<^verbatim>\<open>RiskManager.__init__\<close>\<close>

definition RiskManager_init :: "config \<Rightarrow> RiskManager" where
  "RiskManager_init cfg =
     \<lparr>rm_config = cfg,
      max_risk_per_trade = config_get (cfg_max_risk_per_trade cfg) (2 / 100),
      max_positions = config_get (cfg_max_positions cfg) 3,
      max_daily_loss = config_get (cfg_max_daily_loss cfg) (5 / 100),
      max_drawdown = config_get (cfg_max_drawdown cfg) (10 / 100),
      daily_loss = 0,
      daily_trades = 0,
      day_start_balance = 0\<rparr>"

text \<open>The dictionary built by \<^verbatim>\<open>MT5Executor.get_account_info\<close>.\<close>

record account_info =
  balance :: real
  equity :: real
  margin :: real
  free_margin :: real
  margin_level :: real
  profit :: real
  leverage :: int
  currency :: string

text \<open>
  The reason of a decision. The code formats it as an f-string: a fixed text, followed for
  a BLOCK by a number printed with two decimals and a percent sign. The constructor is the
  fixed text (\<open>reason_text\<close>), its argument the number that is printed.
\<close>

datatype reason =
    Daily_loss_limit_reached real
  | Max_drawdown_reached real
  | Margin_level_too_low real
  | Trading_allowed

fun reason_text :: "reason \<Rightarrow> string" where
  "reason_text (Daily_loss_limit_reached _) = ''Daily loss limit reached: ''"
| "reason_text (Max_drawdown_reached _) = ''Max drawdown reached: ''"
| "reason_text (Margin_level_too_low _) = ''Margin level too low: ''"
| "reason_text Trading_allowed = ''Trading allowed''"

text \<open>
  \<^verbatim>\<open>RiskManager.check_trading_allowed\<close>. The method has no \<^verbatim>\<open>try\<close>: a fault of a
  division leaves it. The gate after the call is returned in every case, since the
  assignment to \<^verbatim>\<open>day_start_balance\<close> precedes the first division.
\<close>

definition check_trading_allowed ::
    "RiskManager \<Rightarrow> account_info \<Rightarrow> RiskManager \<times> (py_error + bool \<times> reason)" where
  "check_trading_allowed self a =
     (let self1 = (if day_start_balance self = 0
                   then self\<lparr>day_start_balance := balance a\<rparr> else self)
      in (self1,
          case py_truediv (day_start_balance self1 - balance a) (day_start_balance self1) of
            Inl e \<Rightarrow> Inl e
          | Inr current_daily_loss \<Rightarrow>
              if max_daily_loss self1 \<le> current_daily_loss
              then Inr (False, Daily_loss_limit_reached (current_daily_loss * 100))
              else
                (case py_truediv (balance a - equity a) (balance a) of
                   Inl e \<Rightarrow> Inl e
                 | Inr drawdown \<Rightarrow>
                     if max_drawdown self1 \<le> drawdown
                     then Inr (False, Max_drawdown_reached (drawdown * 100))
                     else if margin_level a < 200
                     then Inr (False, Margin_level_too_low (margin_level a))
                     else Inr (True, Trading_allowed))))"

text \<open>\<^verbatim>\<open>RiskManager.reset_daily_stats\<close>\<close>

definition reset_daily_stats :: "RiskManager \<Rightarrow> RiskManager" where
  "reset_daily_stats self = self\<lparr>daily_loss := 0, daily_trades := 0, day_start_balance := 0\<rparr>"

text \<open>
  \<^verbatim>\<open>RiskManager.calculate_position_size\<close>. \<open>calculate_position_size_try\<close> is the body of
  the \<^verbatim>\<open>try\<close> block, \<open>Inl\<close> when it raises; the method returns 0 from its \<^verbatim>\<open>except\<close>
  branch then.
\<close>

definition calculate_position_size_try ::
    "RiskManager \<Rightarrow> real \<Rightarrow> real \<Rightarrow> real \<Rightarrow> py_error + real" where
  "calculate_position_size_try self account_balance entry_price stop_loss =
     (let risk_amount = account_balance * max_risk_per_trade self;
          points_at_risk = \<bar>entry_price - stop_loss\<bar>
      in if points_at_risk = 0 then Inr 0
         else
           (let value_per_point = 1
            in case py_truediv risk_amount (points_at_risk * value_per_point) of
                 Inl e \<Rightarrow> Inl e
               | Inr lot_size \<Rightarrow>
                   (let lot_size = py_round2 lot_size;
                        min_lot = config_get (cfg_min_lot_size (rm_config self)) (1 / 100);
                        max_lot = config_get (cfg_max_lot_size (rm_config self)) 10
                    in Inr (max min_lot (min lot_size max_lot)))))"

definition calculate_position_size :: "RiskManager \<Rightarrow> real \<Rightarrow> real \<Rightarrow> real \<Rightarrow> real" where
  "calculate_position_size self account_balance entry_price stop_loss =
     (case calculate_position_size_try self account_balance entry_price stop_loss of
        Inl e \<Rightarrow> 0
      | Inr lot_size \<Rightarrow> lot_size)"

subsection \<open>Quote aggregator (\<^verbatim>\<open>MarketDataFetcher\<close>)\<close>

text \<open>The dictionary \<^verbatim>\<open>{price, bid, ask, timestamp, source}\<close> that a source returns.\<close>

record quote =
  price :: real
  bid :: real
  ask :: real
  timestamp :: int
  source :: string

text \<open>The fields of a terminal tick that the code reads.\<close>

record tick =
  tick_bid :: real
  tick_ask :: real
  tick_time :: int

text \<open>
  An HTTP response: its status code and what \<^verbatim>\<open>response.json()\<close> gives (it raises on a
  body that is not JSON).
\<close>

record 'd response =
  status_code :: int
  json :: "'d reply"

text \<open>
  What the Alpha Vantage code distinguishes in the decoded body: no (or an empty)
  \<^verbatim>\<open>"Global Quote"\<close>; a quote without \<^verbatim>\<open>"05. price"\<close>, where \<^verbatim>\<open>get\<close> yields the
  default 0; a price text that \<^verbatim>\<open>float\<close> refuses; a price.
\<close>

datatype av_price = AV_price_absent | AV_price_unparsable | AV_price real

datatype av_data = AV_no_global_quote | AV_global_quote av_price

text \<open>
  What the Finnhub code distinguishes: no field \<^verbatim>\<open>c\<close> (default 0), a value of \<^verbatim>\<open>c\<close> that
  is not a number (the subtraction raises), a number.
\<close>

datatype finnhub_c = FH_c_absent | FH_c_not_a_number | FH_c real

text \<open>The request that \<^verbatim>\<open>open_position\<close> builds (its constant entries left out).\<close>

datatype order_kind = ORDER_TYPE_BUY | ORDER_TYPE_SELL

record trade_request =
  req_symbol :: string
  req_volume :: real
  req_type :: order_kind
  req_price :: real
  req_sl :: real
  req_tp :: real
  req_deviation :: int
  req_magic :: int
  req_comment :: string

record symbol_info =
  visible :: bool

record order_result =
  retcode :: int
  res_order :: int
  res_volume :: real
  res_price :: real

text \<open>Whether an append to a ledger file goes through or raises.\<close>

datatype storage = Append_ok | Append_fails

text \<open>
  The world outside the program during one operation: what each call of the terminal
  library and of the HTTP client answers, the clock readings, the state of the storage.
  \<open>TRADE_RETCODE_DONE\<close> is the terminal library's constant for success.
\<close>

record world =
  mt5_initialize :: "bool reply"
  mt5_login :: "bool reply"
  mt5_symbol_info :: "string \<Rightarrow> symbol_info option reply"
  mt5_symbol_select :: "string \<Rightarrow> bool reply"
  mt5_symbol_info_tick :: "string \<Rightarrow> tick option reply"
  mt5_order_send :: "trade_request \<Rightarrow> order_result option reply"
  TRADE_RETCODE_DONE :: int
  requests_get_alpha_vantage :: "string option \<Rightarrow> av_data response reply"
  requests_get_finnhub :: "string \<Rightarrow> finnhub_c response reply"
  time_at_entry :: real
  time_after_throttle :: real
  time_at_quote :: real
  datetime_now :: real
  trades_append :: storage

record MarketDataFetcher =
  mdf_config :: config
  alpha_vantage_key :: "string option"
  finnhub_key :: string
  polygon_key :: "string option"
  last_fetch_time :: real
  min_fetch_interval :: real

definition MarketDataFetcher_init :: "config \<Rightarrow> MarketDataFetcher" where
  "MarketDataFetcher_init cfg =
     \<lparr>mdf_config = cfg,
      alpha_vantage_key = cfg_alpha_vantage_api_key cfg,
      finnhub_key = config_get (cfg_finnhub_api_key cfg) ''demo'',
      polygon_key = cfg_polygon_api_key cfg,
      last_fetch_time = 0,
      min_fetch_interval = 1\<rparr>"

text \<open>Truth value of an optional string: \<^verbatim>\<open>None\<close> and the empty string are false.\<close>

definition str_truthy :: "string option \<Rightarrow> bool" where
  "str_truthy k = (case k of None \<Rightarrow> False | Some s \<Rightarrow> s \<noteq> [])"

text \<open>\<^verbatim>\<open>int(x)\<close> truncates towards zero.\<close>

definition py_int :: "real \<Rightarrow> int" where
  "py_int x = (if 0 \<le> x then \<lfloor>x\<rfloor> else \<lceil>x\<rceil>)"

text \<open>\<^verbatim>\<open>_fetch_from_mt5\<close>\<close>

definition fetch_from_mt5 :: "world \<Rightarrow> string \<Rightarrow> quote option" where
  "fetch_from_mt5 w symbol =
     (case mt5_initialize w of
        Raised \<Rightarrow> None
      | Returned ok \<Rightarrow>
          if \<not> ok then None
          else
            (case mt5_symbol_info_tick w symbol of
               Raised \<Rightarrow> None
             | Returned None \<Rightarrow> None
             | Returned (Some tick) \<Rightarrow>
                 Some \<lparr>price = (tick_bid tick + tick_ask tick) / 2,
                       bid = tick_bid tick,
                       ask = tick_ask tick,
                       timestamp = tick_time tick,
                       source = ''MT5''\<rparr>))"

text \<open>\<^verbatim>\<open>_fetch_from_alpha_vantage\<close>\<close>

definition fetch_from_alpha_vantage :: "MarketDataFetcher \<Rightarrow> world \<Rightarrow> string \<Rightarrow> quote option" where
  "fetch_from_alpha_vantage self w symbol =
     (case requests_get_alpha_vantage w (alpha_vantage_key self) of
        Raised \<Rightarrow> None
      | Returned response \<Rightarrow>
          if status_code response \<noteq> 200 then None
          else
            (case json response of
               Raised \<Rightarrow> None
             | Returned AV_no_global_quote \<Rightarrow> None
             | Returned (AV_global_quote field) \<Rightarrow>
                 (case (case field of
                          AV_price_absent \<Rightarrow> Some 0
                        | AV_price_unparsable \<Rightarrow> None
                        | AV_price p \<Rightarrow> Some p) of
                    None \<Rightarrow> None
                  | Some px \<Rightarrow>
                      if px = 0 then None
                      else Some \<lparr>price = px,
                                 bid = px - 1 / 2,
                                 ask = px + 1 / 2,
                                 timestamp = py_int (time_at_quote w),
                                 source = ''AlphaVantage''\<rparr>)))"

text \<open>\<^verbatim>\<open>_fetch_from_finnhub\<close>\<close>

definition fetch_from_finnhub :: "MarketDataFetcher \<Rightarrow> world \<Rightarrow> string \<Rightarrow> quote option" where
  "fetch_from_finnhub self w symbol =
     (case requests_get_finnhub w (finnhub_key self) of
        Raised \<Rightarrow> None
      | Returned response \<Rightarrow>
          if status_code response \<noteq> 200 then None
          else
            (case json response of
               Raised \<Rightarrow> None
             | Returned FH_c_absent \<Rightarrow> None
             | Returned FH_c_not_a_number \<Rightarrow> None
             | Returned (FH_c px) \<Rightarrow>
                 if px = 0 then None
                 else Some \<lparr>price = px,
                            bid = px - 1 / 2,
                            ask = px + 1 / 2,
                            timestamp = py_int (time_at_quote w),
                            source = ''Finnhub''\<rparr>))"

text \<open>
  \<^verbatim>\<open>get_live_price\<close>. The outcome holds the fetcher after the call, how long the
  throttle slept, the sources whose fetch method was called, in the order of the calls,
  and the value returned.
\<close>

datatype price_source = MT5 | AlphaVantage | Finnhub

record live_price =
  fetcher :: MarketDataFetcher
  slept :: "real option"
  queried :: "price_source list"
  returned :: "quote option"

definition throttle :: "MarketDataFetcher \<Rightarrow> world \<Rightarrow> real option" where
  "throttle self w =
     (let current_time = time_at_entry w
      in if current_time - last_fetch_time self < min_fetch_interval self
         then Some (min_fetch_interval self - (current_time - last_fetch_time self))
         else None)"

definition get_live_price :: "MarketDataFetcher \<Rightarrow> world \<Rightarrow> string \<Rightarrow> live_price" where
  "get_live_price self w symbol =
     (let out = \<lparr>fetcher = self\<lparr>last_fetch_time := time_after_throttle w\<rparr>,
                 slept = throttle self w, queried = [MT5], returned = None\<rparr>
      in case fetch_from_mt5 w symbol of
           Some mt5_price \<Rightarrow> out\<lparr>returned := Some mt5_price\<rparr>
         | None \<Rightarrow>
             (let asked = str_truthy (alpha_vantage_key self);
                  av_price = (if asked then fetch_from_alpha_vantage self w symbol else None);
                  out = (if asked then out\<lparr>queried := [MT5, AlphaVantage]\<rparr> else out)
              in case av_price of
                   Some q \<Rightarrow> out\<lparr>returned := Some q\<rparr>
                 | None \<Rightarrow>
                     out\<lparr>queried := queried out @ [Finnhub],
                         returned := fetch_from_finnhub self w symbol\<rparr>))"

subsection \<open>Audit log (\<^verbatim>\<open>TradeLogger\<close>)\<close>

text \<open>
  A ledger file is a list of rows, the header first, or \<open>None\<close> while it does not exist.
  A row is the list of values handed to \<^verbatim>\<open>writerow\<close>.
\<close>

datatype cell = Text string | Whole int | Number real | Datetime real

type_synonym row = "cell list"

type_synonym ledger = "row list option"

record TradeLogger =
  trades_file :: ledger
  events_file :: ledger

definition rows :: "ledger \<Rightarrow> row list" where
  "rows f = (case f of None \<Rightarrow> [] | Some rs \<Rightarrow> rs)"

definition trades_header :: row where
  "trades_header =
     map Text [''timestamp'', ''ticket'', ''symbol'', ''type'', ''volume'', ''entry_price'',
       ''exit_price'', ''sl'', ''tp'', ''profit'', ''comment'', ''status'']"

definition events_header :: row where
  "events_header = map Text [''timestamp'', ''event_type'', ''description'', ''data'']"

text \<open>\<^verbatim>\<open>_ensure_files_exist\<close> and \<^verbatim>\<open>__init__\<close>, where the files can be written.\<close>

definition ensure_files_exist :: "TradeLogger \<Rightarrow> TradeLogger" where
  "ensure_files_exist self =
     self\<lparr>trades_file := (case trades_file self of
                             None \<Rightarrow> Some [trades_header] | Some rs \<Rightarrow> Some rs),
          events_file := (case events_file self of
                             None \<Rightarrow> Some [events_header] | Some rs \<Rightarrow> Some rs)\<rparr>"

definition TradeLogger_init :: "ledger \<Rightarrow> ledger \<Rightarrow> TradeLogger" where
  "TradeLogger_init trades events =
     ensure_files_exist \<lparr>trades_file = trades, events_file = events\<rparr>"

text \<open>Opening a file in mode \<^verbatim>\<open>'a'\<close> creates it when it is missing; the row goes last.\<close>

definition append_row :: "ledger \<Rightarrow> row \<Rightarrow> ledger" where
  "append_row f r = Some (rows f @ [r])"

type_synonym trade_data = "string \<rightharpoonup> cell"

definition dict_get :: "trade_data \<Rightarrow> string \<Rightarrow> cell \<Rightarrow> cell" where
  "dict_get d k dflt = (case d k of None \<Rightarrow> dflt | Some v \<Rightarrow> v)"

definition trade_row :: "real \<Rightarrow> trade_data \<Rightarrow> row" where
  "trade_row now trade_data =
     [dict_get trade_data ''timestamp'' (Datetime now),
      dict_get trade_data ''ticket'' (Text []),
      dict_get trade_data ''symbol'' (Text []),
      dict_get trade_data ''type'' (Text []),
      dict_get trade_data ''volume'' (Whole 0),
      dict_get trade_data ''entry_price'' (Whole 0),
      dict_get trade_data ''exit_price'' (Whole 0),
      dict_get trade_data ''sl'' (Whole 0),
      dict_get trade_data ''tp'' (Whole 0),
      dict_get trade_data ''profit'' (Whole 0),
      dict_get trade_data ''comment'' (Text []),
      dict_get trade_data ''status'' (Text [])]"

text \<open>
  \<^verbatim>\<open>log_trade\<close>: one append inside \<^verbatim>\<open>try\<close>. When the append raises, the \<^verbatim>\<open>except\<close>
  branch reports it on the process log and the call returns; the file is taken to be as
  before. \<open>now\<close> is the reading of \<^verbatim>\<open>datetime.now()\<close>.
\<close>

definition log_trade :: "TradeLogger \<Rightarrow> storage \<Rightarrow> real \<Rightarrow> trade_data \<Rightarrow> TradeLogger" where
  "log_trade self st now trade_data =
     (case st of
        Append_fails \<Rightarrow> self
      | Append_ok \<Rightarrow>
          self\<lparr>trades_file := append_row (trades_file self) (trade_row now trade_data)\<rparr>)"

text \<open>
  \<^verbatim>\<open>log_event\<close>; \<open>data\<close> is the text \<^verbatim>\<open>json.dumps\<close> gives for the payload, \<open>None\<close> for
  no payload or an empty one.
\<close>

definition log_event ::
    "TradeLogger \<Rightarrow> storage \<Rightarrow> real \<Rightarrow> string \<Rightarrow> string \<Rightarrow> string option \<Rightarrow> TradeLogger" where
  "log_event self st now event_type description data =
     (case st of
        Append_fails \<Rightarrow> self
      | Append_ok \<Rightarrow>
          self\<lparr>events_file := append_row (events_file self)
            [Datetime now, Text event_type, Text description,
             Text (case data of None \<Rightarrow> [] | Some js \<Rightarrow> js)]\<rparr>)"


subsection \<open>Order lifecycle (\<^verbatim>\<open>MT5Executor\<close>)\<close>

record MT5Executor =
  ex_config :: config
  login :: "int option"
  password :: "string option"
  server :: "string option"
  magic_number :: int
  initialized :: bool

definition MT5Executor_init :: "config \<Rightarrow> MT5Executor" where
  "MT5Executor_init cfg =
     \<lparr>ex_config = cfg,
      login = cfg_mt5_login cfg,
      password = cfg_mt5_password cfg,
      server = cfg_mt5_server cfg,
      magic_number = config_get (cfg_magic_number cfg) 234000,
      initialized = False\<rparr>"

definition int_truthy :: "int option \<Rightarrow> bool" where
  "int_truthy k = (case k of None \<Rightarrow> False | Some n \<Rightarrow> n \<noteq> 0)"

text \<open>\<^verbatim>\<open>MT5Executor.initialize\<close>\<close>

definition initialize :: "MT5Executor \<Rightarrow> world \<Rightarrow> MT5Executor \<times> bool" where
  "initialize self w =
     (if initialized self then (self, True)
      else
        (case mt5_initialize w of
           Raised \<Rightarrow> (self, False)
         | Returned ok \<Rightarrow>
             if \<not> ok then (self, False)
             else if int_truthy (login self) \<and> str_truthy (password self)
                     \<and> str_truthy (server self)
             then
               (case mt5_login w of
                  Raised \<Rightarrow> (self, False)
                | Returned authorized \<Rightarrow>
                    if \<not> authorized then (self, False)
                    else (self\<lparr>initialized := True\<rparr>, True))
             else (self\<lparr>initialized := True\<rparr>, True)))"

text \<open>\<^verbatim>\<open>str.lower\<close> on the letters A to Z.\<close>

definition lower_char :: "char \<Rightarrow> char" where
  "lower_char c =
     (case map_of (zip ''ABCDEFGHIJKLMNOPQRSTUVWXYZ'' ''abcdefghijklmnopqrstuvwxyz'') c of
        None \<Rightarrow> c
      | Some l \<Rightarrow> l)"

definition str_lower :: "string \<Rightarrow> string" where
  "str_lower s = map lower_char s"

text \<open>The position dictionary that \<^verbatim>\<open>open_position\<close> returns.\<close>

record position =
  pos_ticket :: int
  pos_volume :: real
  pos_price :: real
  pos_type :: string
  pos_symbol :: string
  pos_sl :: real
  pos_tp :: real
  pos_comment :: string
  pos_timestamp :: real

text \<open>
  \<^verbatim>\<open>open_position\<close>, first part of the \<^verbatim>\<open>try\<close> block: from the symbol lookup to the
  request dictionary. \<open>None\<close> where the method returns \<^verbatim>\<open>None\<close> before it sends an order.
\<close>

definition open_position_request ::
    "MT5Executor \<Rightarrow> world \<Rightarrow> string \<Rightarrow> string \<Rightarrow> real \<Rightarrow> real \<Rightarrow> real \<Rightarrow> string
      \<Rightarrow> trade_request option" where
  "open_position_request self w symbol order_type volume sl tp comment =
     (case mt5_symbol_info w symbol of
        Raised \<Rightarrow> None
      | Returned None \<Rightarrow> None
      | Returned (Some info) \<Rightarrow>
          if \<not> visible info
             \<and> (case mt5_symbol_select w symbol of Raised \<Rightarrow> True | Returned sel \<Rightarrow> \<not> sel)
          then None
          else
            (case mt5_symbol_info_tick w symbol of
               Raised \<Rightarrow> None
             | Returned None \<Rightarrow> None
             | Returned (Some tick) \<Rightarrow>
                 (case (if str_lower order_type = ''buy''
                        then Some (ORDER_TYPE_BUY, tick_ask tick)
                        else if str_lower order_type = ''sell''
                        then Some (ORDER_TYPE_SELL, tick_bid tick)
                        else None) of
                    None \<Rightarrow> None
                  | Some (trade_type, px) \<Rightarrow>
                      Some \<lparr>req_symbol = symbol, req_volume = volume, req_type = trade_type,
                            req_price = px, req_sl = sl, req_tp = tp, req_deviation = 20,
                            req_magic = magic_number self, req_comment = comment\<rparr>)))"

text \<open>
  \<^verbatim>\<open>open_position\<close>: the connection, the request, then \<^verbatim>\<open>order_send\<close> and the test of
  its return code.
\<close>

definition open_position ::
    "MT5Executor \<Rightarrow> world \<Rightarrow> string \<Rightarrow> string \<Rightarrow> real \<Rightarrow> real \<Rightarrow> real \<Rightarrow> string
      \<Rightarrow> MT5Executor \<times> position option" where
  "open_position self w symbol order_type volume sl tp comment =
     (let (self1, ok) = initialize self w
      in if \<not> ok then (self1, None)
         else
           (self1,
            case open_position_request self1 w symbol order_type volume sl tp comment of
              None \<Rightarrow> None
            | Some request \<Rightarrow>
                (case mt5_order_send w request of
                   Raised \<Rightarrow> None
                 | Returned None \<Rightarrow> None
                 | Returned (Some result) \<Rightarrow>
                     if retcode result \<noteq> TRADE_RETCODE_DONE w then None
                     else Some \<lparr>pos_ticket = res_order result,
                                pos_volume = res_volume result,
                                pos_price = res_price result,
                                pos_type = order_type,
                                pos_symbol = symbol,
                                pos_sl = sl,
                                pos_tp = tp,
                                pos_comment = comment,
                                pos_timestamp = datetime_now w\<rparr>)))"

subsection \<open>Orchestrator (\<^verbatim>\<open>TradingSystem\<close>)\<close>

record TradingSystem =
  ts_config :: config
  market_data :: MarketDataFetcher
  executor :: MT5Executor
  risk_manager :: RiskManager
  trade_logger :: TradeLogger
  running :: bool
  last_price_check :: real
  price_check_interval :: real

definition TradingSystem_init :: "config \<Rightarrow> ledger \<Rightarrow> ledger \<Rightarrow> TradingSystem" where
  "TradingSystem_init cfg trades events =
     \<lparr>ts_config = cfg,
      market_data = MarketDataFetcher_init cfg,
      executor = MT5Executor_init cfg,
      risk_manager = RiskManager_init cfg,
      trade_logger = TradeLogger_init trades events,
      running = False,
      last_price_check = 0,
      price_check_interval = config_get (cfg_price_check_interval cfg) 5\<rparr>"

text \<open>\<^verbatim>\<open>_execute_buy\<close>\<close>

definition execute_buy ::
    "TradingSystem \<Rightarrow> world \<Rightarrow> string \<Rightarrow> quote \<Rightarrow> account_info \<Rightarrow> TradingSystem" where
  "execute_buy self w symbol price_data account =
     (let entry_price = ask price_data;
          sl = entry_price - config_get (cfg_default_sl_points (ts_config self)) 10;
          tp = entry_price + config_get (cfg_default_tp_points (ts_config self)) 20;
          volume = calculate_position_size (risk_manager self) (balance account) entry_price sl
      in if volume = 0 then self
         else
           (let (ex1, result) =
                  open_position (executor self) w symbol ''buy'' volume sl tp ''Auto buy''
            in case result of
                 None \<Rightarrow> self\<lparr>executor := ex1\<rparr>
               | Some r \<Rightarrow>
                   self\<lparr>executor := ex1,
                        trade_logger :=
                          log_trade (trade_logger self) (trades_append w) (datetime_now w)
                            (map_of
                              [(''timestamp'', Datetime (pos_timestamp r)),
                               (''ticket'', Whole (pos_ticket r)),
                               (''symbol'', Text symbol),
                               (''type'', Text ''buy''),
                               (''volume'', Number volume),
                               (''entry_price'', Number entry_price),
                               (''sl'', Number sl),
                               (''tp'', Number tp),
                               (''status'', Text ''opened'')])\<rparr>))"

text \<open>\<^verbatim>\<open>_execute_sell\<close>\<close>

definition execute_sell ::
    "TradingSystem \<Rightarrow> world \<Rightarrow> string \<Rightarrow> quote \<Rightarrow> account_info \<Rightarrow> TradingSystem" where
  "execute_sell self w symbol price_data account =
     (let entry_price = bid price_data;
          sl = entry_price + config_get (cfg_default_sl_points (ts_config self)) 10;
          tp = entry_price - config_get (cfg_default_tp_points (ts_config self)) 20;
          volume = calculate_position_size (risk_manager self) (balance account) entry_price sl
      in if volume = 0 then self
         else
           (let (ex1, result) =
                  open_position (executor self) w symbol ''sell'' volume sl tp ''Auto sell''
            in case result of
                 None \<Rightarrow> self\<lparr>executor := ex1\<rparr>
               | Some r \<Rightarrow>
                   self\<lparr>executor := ex1,
                        trade_logger :=
                          log_trade (trade_logger self) (trades_append w) (datetime_now w)
                            (map_of
                              [(''timestamp'', Datetime (pos_timestamp r)),
                               (''ticket'', Whole (pos_ticket r)),
                               (''symbol'', Text symbol),
                               (''type'', Text ''sell''),
                               (''volume'', Number volume),
                               (''entry_price'', Number entry_price),
                               (''sl'', Number sl),
                               (''tp'', Number tp),
                               (''status'', Text ''opened'')])\<rparr>))"

section \<open>Notions of the specification\<close>

text \<open>
  The quantities the specification names, written after its words; the theorems below
  relate the code to them.
\<close>

subsection \<open>Risk gate\<close>

text \<open>Daily loss ratio: (dayStartBalance - balance) / dayStartBalance.\<close>

definition daily_loss_ratio :: "RiskManager \<Rightarrow> account_info \<Rightarrow> real" where
  "daily_loss_ratio self a = (day_start_balance self - balance a) / day_start_balance self"

text \<open>Drawdown ratio: (balance - equity) / balance.\<close>

definition drawdown_ratio :: "account_info \<Rightarrow> real" where
  "drawdown_ratio a = (balance a - equity a) / balance a"

text \<open>The lot bounds, as \<^verbatim>\<open>calculate_position_size\<close> reads them from the configuration.\<close>

definition min_lot :: "RiskManager \<Rightarrow> real" where
  "min_lot self = config_get (cfg_min_lot_size (rm_config self)) (1 / 100)"

definition max_lot :: "RiskManager \<Rightarrow> real" where
  "max_lot self = config_get (cfg_max_lot_size (rm_config self)) 10"

text \<open>Clamping a value to the interval from \<open>lo\<close> to \<open>hi\<close>.\<close>

definition clamp :: "real \<Rightarrow> real \<Rightarrow> real \<Rightarrow> real" where
  "clamp lo hi x = (if x < lo then lo else if hi < x then hi else x)"

text \<open>
  The specification's sizing rule for a nonzero risk distance: riskAmount over
  pointsAtRisk times valuePerPoint, rounded to two decimals, then clamped.
\<close>

definition sizePosition :: "RiskManager \<Rightarrow> real \<Rightarrow> real \<Rightarrow> real \<Rightarrow> real" where
  "sizePosition self accountBalance entryPrice stopLoss =
     (let riskAmount = accountBalance * max_risk_per_trade self;
          pointsAtRisk = \<bar>entryPrice - stopLoss\<bar>;
          valuePerPoint = 1
      in clamp (min_lot self) (max_lot self)
           (py_round2 (riskAmount / (pointsAtRisk * valuePerPoint))))"

subsection \<open>Quote aggregator\<close>

text \<open>A structurally valid quote: bid at most ask, and a positive price.\<close>

definition structurally_valid :: "quote \<Rightarrow> bool" where
  "structurally_valid q = (bid q \<le> ask q \<and> 0 < price q)"

text \<open>
  The sources \<^verbatim>\<open>get_live_price\<close> goes through, in its order: the terminal, Alpha Vantage
  when a key is configured, Finnhub; and the fetch method of each.
\<close>

definition source_order :: "MarketDataFetcher \<Rightarrow> price_source list" where
  "source_order self =
     MT5 # (if str_truthy (alpha_vantage_key self) then [AlphaVantage] else []) @ [Finnhub]"

definition fetch_source :: "MarketDataFetcher \<Rightarrow> world \<Rightarrow> string \<Rightarrow> price_source \<Rightarrow> quote option" where
  "fetch_source self w symbol src =
     (case src of
        MT5 \<Rightarrow> fetch_from_mt5 w symbol
      | AlphaVantage \<Rightarrow> fetch_from_alpha_vantage self w symbol
      | Finnhub \<Rightarrow> fetch_from_finnhub self w symbol)"

subsection \<open>Order submissions and the ledgers\<close>

text \<open>
  A rejected order submission: the connection stands, \<^verbatim>\<open>open_position\<close> gets as far as
  its request, \<^verbatim>\<open>order_send\<close> answers with a result, and the return code of the result
  is not the code for success.
\<close>

definition rejected_submission ::
    "MT5Executor \<Rightarrow> world \<Rightarrow> string \<Rightarrow> string \<Rightarrow> real \<Rightarrow> real \<Rightarrow> real \<Rightarrow> string \<Rightarrow> bool" where
  "rejected_submission ex w symbol order_type volume sl tp comment =
     (snd (initialize ex w)
      \<and> (case open_position_request (fst (initialize ex w)) w symbol order_type volume sl tp
                comment of
            None \<Rightarrow> False
          | Some request \<Rightarrow>
              (case mt5_order_send w request of
                 Raised \<Rightarrow> False
               | Returned None \<Rightarrow> False
               | Returned (Some result) \<Rightarrow> retcode result \<noteq> TRADE_RETCODE_DONE w)))"

text \<open>
  The stop loss, take profit and volume that \<^verbatim>\<open>_execute_buy\<close> and \<^verbatim>\<open>_execute_sell\<close>
  compute for the order they submit.
\<close>

definition buy_stop_loss :: "TradingSystem \<Rightarrow> quote \<Rightarrow> real" where
  "buy_stop_loss self price_data =
     ask price_data - config_get (cfg_default_sl_points (ts_config self)) 10"

definition buy_take_profit :: "TradingSystem \<Rightarrow> quote \<Rightarrow> real" where
  "buy_take_profit self price_data =
     ask price_data + config_get (cfg_default_tp_points (ts_config self)) 20"

definition buy_volume :: "TradingSystem \<Rightarrow> quote \<Rightarrow> account_info \<Rightarrow> real" where
  "buy_volume self price_data account =
     calculate_position_size (risk_manager self) (balance account) (ask price_data)
       (buy_stop_loss self price_data)"

definition sell_stop_loss :: "TradingSystem \<Rightarrow> quote \<Rightarrow> real" where
  "sell_stop_loss self price_data =
     bid price_data + config_get (cfg_default_sl_points (ts_config self)) 10"

definition sell_take_profit :: "TradingSystem \<Rightarrow> quote \<Rightarrow> real" where
  "sell_take_profit self price_data =
     bid price_data - config_get (cfg_default_tp_points (ts_config self)) 20"

definition sell_volume :: "TradingSystem \<Rightarrow> quote \<Rightarrow> account_info \<Rightarrow> real" where
  "sell_volume self price_data account =
     calculate_position_size (risk_manager self) (balance account) (bid price_data)
       (sell_stop_loss self price_data)"



subsection \<open>Sample inputs\<close>

text \<open>
  A world in which the terminal does not connect and the HTTP requests raise; the worlds
  of the examples below change some of its answers.
\<close>

definition quiet_world :: world where
  "quiet_world =
     \<lparr>mt5_initialize = Returned False, mt5_login = Returned False,
      mt5_symbol_info = (\<lambda>_. Returned None), mt5_symbol_select = (\<lambda>_. Returned False),
      mt5_symbol_info_tick = (\<lambda>_. Returned None), mt5_order_send = (\<lambda>_. Returned None),
      TRADE_RETCODE_DONE = 10009,
      requests_get_alpha_vantage = (\<lambda>_. Raised), requests_get_finnhub = (\<lambda>_. Raised),
      time_at_entry = 1700000000, time_after_throttle = 1700000000,
      time_at_quote = 1700000000, datetime_now = 1700000000, trades_append = Append_ok\<rparr>"

text \<open>Alpha Vantage answers with the price -5, Finnhub with 2000.\<close>

definition negative_price_world :: world where
  "negative_price_world =
     quiet_world
       \<lparr>requests_get_alpha_vantage :=
          (\<lambda>_. Returned \<lparr>status_code = 200, json = Returned (AV_global_quote (AV_price (- 5)))\<rparr>),
        requests_get_finnhub :=
          (\<lambda>_. Returned \<lparr>status_code = 200, json = Returned (FH_c 2000)\<rparr>)\<rparr>"

text \<open>Alpha Vantage answers with a quote that has no price, Finnhub with 2000.\<close>

definition fallback_world :: world where
  "fallback_world =
     quiet_world
       \<lparr>requests_get_alpha_vantage :=
          (\<lambda>_. Returned \<lparr>status_code = 200, json = Returned (AV_global_quote AV_price_absent)\<rparr>),
        requests_get_finnhub :=
          (\<lambda>_. Returned \<lparr>status_code = 200, json = Returned (FH_c 2000)\<rparr>)\<rparr>"

text \<open>The terminal is connected and its tick has bid 2001 above ask 2000.\<close>

definition crossed_world :: world where
  "crossed_world =
     quiet_world
       \<lparr>mt5_initialize := Returned True,
        mt5_symbol_info_tick :=
          (\<lambda>_. Returned (Some \<lparr>tick_bid = 2001, tick_ask = 2000, tick_time = 1700000000\<rparr>))\<rparr>"

text \<open>A fetcher whose configuration holds an Alpha Vantage key.\<close>

definition keyed_fetcher :: MarketDataFetcher where
  "keyed_fetcher =
     MarketDataFetcher_init (empty_config\<lparr>cfg_alpha_vantage_api_key := Some ''KEY''\<rparr>)"

text \<open>
  The terminal is connected, knows the symbol and has a tick; it answers every order with
  return code 10006 (rejected), while the code for success is 10009.
\<close>

definition rejecting_world :: world where
  "rejecting_world =
     quiet_world
       \<lparr>mt5_initialize := Returned True,
        mt5_symbol_info := (\<lambda>_. Returned (Some \<lparr>visible = True\<rparr>)),
        mt5_symbol_info_tick :=
          (\<lambda>_. Returned (Some \<lparr>tick_bid = 3999 / 2, tick_ask = 2000, tick_time = 1700000000\<rparr>)),
        mt5_order_send :=
          (\<lambda>_. Returned (Some \<lparr>retcode = 10006, res_order = 0, res_volume = 0, res_price = 0\<rparr>))\<rparr>"

text \<open>A system just constructed from an empty configuration, with no ledger files yet.\<close>

definition fresh_system :: TradingSystem where
  "fresh_system = TradingSystem_init empty_config None None"

definition sample_quote :: quote where
  "sample_quote =
     \<lparr>price = 7999 / 4, bid = 3999 / 2, ask = 2000, timestamp = 1700000000, source = ''MT5''\<rparr>"

definition sample_account :: account_info where
  "sample_account =
     \<lparr>balance = 10000, equity = 10000, margin = 0, free_margin = 10000, margin_level = 0,
      profit = 0, leverage = 100, currency = ''USD''\<rparr>"



section \<open>Properties of the risk gate\<close>

text \<open>
  Once the day-start balance is set, the call leaves the gate as it is and its answer is
  the first of the three tests that fires.
\<close>

lemma check_initialised:
  "day_start_balance self \<noteq> 0 \<Longrightarrow>
   check_trading_allowed self a =
     (self,
      if max_daily_loss self \<le> daily_loss_ratio self a
      then Inr (False, Daily_loss_limit_reached (daily_loss_ratio self a * 100))
      else if balance a = 0 then Inl ZeroDivisionError
      else if max_drawdown self \<le> drawdown_ratio a
      then Inr (False, Max_drawdown_reached (drawdown_ratio a * 100))
      else if margin_level a < 200
      then Inr (False, Margin_level_too_low (margin_level a))
      else Inr (True, Trading_allowed))"
  by (simp add: check_trading_allowed_def py_truediv_def daily_loss_ratio_def
        drawdown_ratio_def)

lemma check_first_use:
  "day_start_balance self = 0 \<Longrightarrow>
   check_trading_allowed self a =
     check_trading_allowed (self\<lparr>day_start_balance := balance a\<rparr>) a"
  by (simp add: check_trading_allowed_def)

text \<open>
  Claim C1. With a positive day-start balance, \<open>check_trading_allowed\<close> tests daily
  loss, then drawdown, then margin level, and the first test that fires decides: a daily
  loss at or above its cap gives BLOCK with the daily-loss reason whatever the rest of the
  snapshot is (also for a zero balance, on which the drawdown division would raise: the
  later tests are not evaluated); otherwise a drawdown at or above its cap gives BLOCK with
  the drawdown reason whatever the margin level is; otherwise a margin level below 200
  gives BLOCK with the margin reason; otherwise ALLOW. The drawdown ratio exists for a
  nonzero balance. The reason texts are pairwise distinct. For balance 10000, day-start
  balance 10000, equity 8900, margin level 300 and the default caps the answer is BLOCK
  with the drawdown reason, at 11 percent.
\<close>

theorem check_trading_allowed_order:
  "(0 < day_start_balance self \<longrightarrow>
      (max_daily_loss self \<le> daily_loss_ratio self a \<longrightarrow>
         snd (check_trading_allowed self a) =
           Inr (False, Daily_loss_limit_reached (daily_loss_ratio self a * 100)))
    \<and> (daily_loss_ratio self a < max_daily_loss self \<and> balance a \<noteq> 0
          \<and> max_drawdown self \<le> drawdown_ratio a \<longrightarrow>
         snd (check_trading_allowed self a) =
           Inr (False, Max_drawdown_reached (drawdown_ratio a * 100)))
    \<and> (daily_loss_ratio self a < max_daily_loss self \<and> balance a \<noteq> 0
          \<and> drawdown_ratio a < max_drawdown self \<and> margin_level a < 200 \<longrightarrow>
         snd (check_trading_allowed self a) =
           Inr (False, Margin_level_too_low (margin_level a)))
    \<and> (daily_loss_ratio self a < max_daily_loss self \<and> balance a \<noteq> 0
          \<and> drawdown_ratio a < max_drawdown self \<and> 200 \<le> margin_level a \<longrightarrow>
         snd (check_trading_allowed self a) = Inr (True, Trading_allowed)))
   \<and> distinct [reason_text (Daily_loss_limit_reached x), reason_text (Max_drawdown_reached y),
        reason_text (Margin_level_too_low z), reason_text Trading_allowed]
   \<and> snd (check_trading_allowed
        ((RiskManager_init empty_config)\<lparr>day_start_balance := 10000\<rparr>)
        \<lparr>balance = 10000, equity = 8900, margin = m, free_margin = fm, margin_level = 300,
         profit = p, leverage = l, currency = c\<rparr>) = Inr (False, Max_drawdown_reached 11)"
proof -
  have example: "snd (check_trading_allowed
        ((RiskManager_init empty_config)\<lparr>day_start_balance := 10000\<rparr>)
        \<lparr>balance = 10000, equity = 8900, margin = m, free_margin = fm, margin_level = 300,
         profit = p, leverage = l, currency = c\<rparr>) = Inr (False, Max_drawdown_reached 11)"
    by (simp add: check_initialised RiskManager_init_def empty_config_def config_get_def
        daily_loss_ratio_def drawdown_ratio_def)
  have texts: "distinct [reason_text (Daily_loss_limit_reached x),
        reason_text (Max_drawdown_reached y), reason_text (Margin_level_too_low z),
        reason_text Trading_allowed]"
    by simp
  show ?thesis
    using example texts by (simp add: check_initialised)
qed

theorem check_trading_allowed_order_witness:
  "snd (check_trading_allowed ((RiskManager_init empty_config)\<lparr>day_start_balance := 10000\<rparr>)
     \<lparr>balance = 9000, equity = 9000, margin = 0, free_margin = 9000, margin_level = 0,
      profit = 0, leverage = 100, currency = ''USD''\<rparr>)
     = Inr (False, Daily_loss_limit_reached 10)
   \<and> snd (check_trading_allowed ((RiskManager_init empty_config)\<lparr>day_start_balance := 10000\<rparr>)
     \<lparr>balance = 10000, equity = 8900, margin = 2000, free_margin = 6900, margin_level = 150,
      profit = -1100, leverage = 100, currency = ''USD''\<rparr>)
     = Inr (False, Max_drawdown_reached 11)
   \<and> snd (check_trading_allowed ((RiskManager_init empty_config)\<lparr>day_start_balance := 10000\<rparr>)
     \<lparr>balance = 10000, equity = 9800, margin = 7000, free_margin = 2800, margin_level = 140,
      profit = -200, leverage = 100, currency = ''USD''\<rparr>)
     = Inr (False, Margin_level_too_low 140)
   \<and> snd (check_trading_allowed ((RiskManager_init empty_config)\<lparr>day_start_balance := 10500\<rparr>)
     \<lparr>balance = 10000, equity = 9800, margin = 3920, free_margin = 5880, margin_level = 250,
      profit = -200, leverage = 100, currency = ''USD''\<rparr>)
     = Inr (True, Trading_allowed)"
  using
    check_trading_allowed_order [of "(RiskManager_init empty_config)\<lparr>day_start_balance := 10000\<rparr>"
     "\<lparr>balance = 9000, equity = 9000, margin = 0, free_margin = 9000, margin_level = 0,
      profit = 0, leverage = 100, currency = ''USD''\<rparr>"]
    check_trading_allowed_order [of "(RiskManager_init empty_config)\<lparr>day_start_balance := 10000\<rparr>"
     "\<lparr>balance = 10000, equity = 8900, margin = 2000, free_margin = 6900, margin_level = 150,
      profit = -1100, leverage = 100, currency = ''USD''\<rparr>"]
    check_trading_allowed_order [of "(RiskManager_init empty_config)\<lparr>day_start_balance := 10000\<rparr>"
     "\<lparr>balance = 10000, equity = 9800, margin = 7000, free_margin = 2800, margin_level = 140,
      profit = -200, leverage = 100, currency = ''USD''\<rparr>"]
    check_trading_allowed_order [of "(RiskManager_init empty_config)\<lparr>day_start_balance := 10500\<rparr>"
     "\<lparr>balance = 10000, equity = 9800, margin = 3920, free_margin = 5880, margin_level = 250,
      profit = -200, leverage = 100, currency = ''USD''\<rparr>"]
  by (simp add: daily_loss_ratio_def drawdown_ratio_def RiskManager_init_def config_get_def
      empty_config_def)

text \<open>
  Claim C5, which the code does not meet. A gate that has not yet seen a snapshot
  (day-start balance 0) is asked about an account with balance 0: the day-start balance
  is set to 0, the daily-loss division has a zero divisor, and \<^verbatim>\<open>ZeroDivisionError\<close>
  leaves the method, which has no handler.
\<close>

theorem check_trading_allowed_zero_balance_raises:
  "snd (check_trading_allowed (RiskManager_init empty_config)
     \<lparr>balance = 0, equity = 0, margin = 0, free_margin = 0, margin_level = 0,
      profit = 0, leverage = 100, currency = ''USD''\<rparr>) = Inl ZeroDivisionError"
  by (simp add: check_trading_allowed_def RiskManager_init_def py_truediv_def)

text \<open>
  Claim C6. When the entry price equals the stop-loss price, \<open>calculate_position_size\<close>
  returns 0 for every balance and every gate, and it does so on the normal path of the
  \<^verbatim>\<open>try\<close> block: no division is reached, so none raises.
\<close>

theorem calculate_position_size_zero_risk:
  "calculate_position_size_try self account_balance entry_price entry_price = Inr 0
   \<and> calculate_position_size self account_balance entry_price entry_price = 0"
  by (simp add: calculate_position_size_def calculate_position_size_try_def)

text \<open>
  Claim C7. For a nonzero risk distance and lot bounds with \<open>min_lot \<le> max_lot\<close> (the
  defaults are 0.01 and 10), \<open>calculate_position_size\<close> returns, without raising, the
  volume of the specification's rule \<open>sizePosition\<close>, and that volume lies between
  \<open>min_lot\<close> and \<open>max_lot\<close> inclusive. This holds for every balance, so for every
  positive one.
\<close>

theorem calculate_position_size_in_range:
  assumes "entry_price \<noteq> stop_loss" and "min_lot self \<le> max_lot self"
  shows "calculate_position_size_try self account_balance entry_price stop_loss
           = Inr (sizePosition self account_balance entry_price stop_loss)
       \<and> calculate_position_size self account_balance entry_price stop_loss
           = sizePosition self account_balance entry_price stop_loss
       \<and> min_lot self \<le> calculate_position_size self account_balance entry_price stop_loss
       \<and> calculate_position_size self account_balance entry_price stop_loss \<le> max_lot self"
proof -
  let ?x = "py_round2 (account_balance * max_risk_per_trade self / \<bar>entry_price - stop_loss\<bar>)"
  have nz: "\<bar>entry_price - stop_loss\<bar> \<noteq> 0" using assms(1) by simp
  have t: "calculate_position_size_try self account_balance entry_price stop_loss
      = Inr (max (min_lot self) (min ?x (max_lot self)))"
    using nz by (simp add: calculate_position_size_try_def py_truediv_def min_lot_def max_lot_def)
  have c: "max (min_lot self) (min ?x (max_lot self)) = clamp (min_lot self) (max_lot self) ?x"
    using assms(2) by (simp add: clamp_def max_def min_def)
  have s: "sizePosition self account_balance entry_price stop_loss
      = clamp (min_lot self) (max_lot self) ?x"
    by (simp add: sizePosition_def)
  have lo: "min_lot self \<le> clamp (min_lot self) (max_lot self) ?x"
    using assms(2) by (simp add: clamp_def)
  have hi: "clamp (min_lot self) (max_lot self) ?x \<le> max_lot self"
    using assms(2) by (simp add: clamp_def)
  show ?thesis
    using t c s lo hi by (simp add: calculate_position_size_def)
qed

theorem calculate_position_size_in_range_witness:
  "calculate_position_size (RiskManager_init empty_config) 1234 2000 1993 = 353 / 100
   \<and> calculate_position_size (RiskManager_init empty_config) 10000 2000 1990 = 10
   \<and> calculate_position_size (RiskManager_init empty_config) 1 2000 1990 = 1 / 100"
proof -
  let ?s = "RiskManager_init empty_config"
  have m: "min_lot ?s \<le> max_lot ?s"
    by (simp add: min_lot_def max_lot_def RiskManager_init_def empty_config_def config_get_def)
  have 1: "(2000::real) \<noteq> 1993" and 2: "(2000::real) \<noteq> 1990" by simp_all
  have a: "sizePosition ?s 1234 2000 1993 = 353 / 100"
    by (simp add: sizePosition_def clamp_def py_round2_def round_half_even_def min_lot_def
        max_lot_def RiskManager_init_def empty_config_def config_get_def Let_def)
  have b: "sizePosition ?s 10000 2000 1990 = 10"
    by (simp add: sizePosition_def clamp_def py_round2_def round_half_even_def min_lot_def
        max_lot_def RiskManager_init_def empty_config_def config_get_def Let_def)
  have c: "sizePosition ?s 1 2000 1990 = 1 / 100"
    by (simp add: sizePosition_def clamp_def py_round2_def round_half_even_def min_lot_def
        max_lot_def RiskManager_init_def empty_config_def config_get_def Let_def)
  show ?thesis
    using calculate_position_size_in_range [OF 1 m, of 1234]
      calculate_position_size_in_range [OF 2 m, of 10000]
      calculate_position_size_in_range [OF 2 m, of 1] a b c
    by simp
qed

text \<open>
  Claim C9. The margin-level floor is the constant 200 and the test is strict. For a
  snapshot with a nonzero balance (so that both ratios exist) whose daily loss, taken
  against the day-start balance the call uses, and whose drawdown are below their caps:
  a margin level of exactly 200 gives ALLOW; the answer is ALLOW exactly when the margin
  level is at least 200, and BLOCK, with the margin reason, exactly when it is below 200.
\<close>

theorem margin_floor_is_200_strict:
  assumes "balance a \<noteq> 0"
    and "daily_loss_ratio (fst (check_trading_allowed self a)) a < max_daily_loss self"
    and "drawdown_ratio a < max_drawdown self"
  shows "(margin_level a = 200 \<longrightarrow>
            snd (check_trading_allowed self a) = Inr (True, Trading_allowed))
       \<and> (snd (check_trading_allowed self a) = Inr (True, Trading_allowed))
           = (200 \<le> margin_level a)
       \<and> (snd (check_trading_allowed self a) = Inr (False, Margin_level_too_low (margin_level a)))
           = (margin_level a < 200)
       \<and> (\<exists>r. snd (check_trading_allowed self a) = Inr (False, r)) = (margin_level a < 200)"
proof (cases "day_start_balance self = 0")
  case True
  let ?s = "self\<lparr>day_start_balance := balance a\<rparr>"
  have nz: "day_start_balance ?s \<noteq> 0" using assms(1) by simp
  have st: "fst (check_trading_allowed self a) = ?s"
    using True by (simp add: check_trading_allowed_def Let_def)
  have dl: "daily_loss_ratio ?s a < max_daily_loss ?s" using assms(2) st by simp
  have dd: "drawdown_ratio a < max_drawdown ?s" using assms(3) by simp
  have "snd (check_trading_allowed self a) =
      (if margin_level a < 200 then Inr (False, Margin_level_too_low (margin_level a))
       else Inr (True, Trading_allowed))"
    using dl dd assms(1) by (simp add: check_first_use [OF True] check_initialised [OF nz])
  then show ?thesis by auto
next
  case False
  have st: "fst (check_trading_allowed self a) = self"
    using False by (simp add: check_trading_allowed_def Let_def)
  have "snd (check_trading_allowed self a) =
      (if margin_level a < 200 then Inr (False, Margin_level_too_low (margin_level a))
       else Inr (True, Trading_allowed))"
    using assms st by (simp add: check_initialised [OF False])
  then show ?thesis by auto
qed

theorem margin_floor_is_200_strict_witness:
  "snd (check_trading_allowed ((RiskManager_init empty_config)\<lparr>day_start_balance := 10500\<rparr>)
     \<lparr>balance = 10000, equity = 9800, margin = 4900, free_margin = 4900, margin_level = 200,
      profit = -200, leverage = 100, currency = ''USD''\<rparr>) = Inr (True, Trading_allowed)"
proof -
  let ?s = "(RiskManager_init empty_config)\<lparr>day_start_balance := 10500\<rparr>"
  let ?a = "\<lparr>balance = 10000, equity = 9800, margin = 4900, free_margin = 4900,
      margin_level = 200, profit = -200, leverage = 100, currency = ''USD''\<rparr>"
  have f: "fst (check_trading_allowed ?s ?a) = ?s"
    by (simp add: check_trading_allowed_def RiskManager_init_def Let_def)
  have 1: "balance ?a \<noteq> 0" by simp
  have 2: "daily_loss_ratio (fst (check_trading_allowed ?s ?a)) ?a < max_daily_loss ?s"
    unfolding f
    by (simp add: daily_loss_ratio_def RiskManager_init_def config_get_def empty_config_def)
  have 3: "drawdown_ratio ?a < max_drawdown ?s"
    by (simp add: drawdown_ratio_def RiskManager_init_def config_get_def empty_config_def)
  show ?thesis using margin_floor_is_200_strict [OF 1 2 3] by simp
qed

text \<open>
  Claim C10. \<open>check_trading_allowed\<close> changes the gate in one case only: a day-start
  balance of 0 is replaced by the balance of the snapshot. With a nonzero day-start
  balance the gate after the call is the gate before it, and in every case the
  configuration, the limits, the daily loss and the daily trade count are unchanged. This
  is so whether the call returns a decision or raises.
\<close>

theorem check_trading_allowed_frame:
  "fst (check_trading_allowed self a) =
     (if day_start_balance self = 0 then self\<lparr>day_start_balance := balance a\<rparr> else self)
   \<and> (day_start_balance self \<noteq> 0 \<longrightarrow> fst (check_trading_allowed self a) = self)
   \<and> rm_config (fst (check_trading_allowed self a)) = rm_config self
   \<and> max_risk_per_trade (fst (check_trading_allowed self a)) = max_risk_per_trade self
   \<and> max_positions (fst (check_trading_allowed self a)) = max_positions self
   \<and> max_daily_loss (fst (check_trading_allowed self a)) = max_daily_loss self
   \<and> max_drawdown (fst (check_trading_allowed self a)) = max_drawdown self
   \<and> daily_loss (fst (check_trading_allowed self a)) = daily_loss self
   \<and> daily_trades (fst (check_trading_allowed self a)) = daily_trades self"
  by (simp add: check_trading_allowed_def Let_def)

theorem check_trading_allowed_frame_witness:
  "fst (check_trading_allowed (RiskManager_init empty_config)
     \<lparr>balance = 10000, equity = 9800, margin = 100, free_margin = 9700, margin_level = 9800,
      profit = -200, leverage = 100, currency = ''USD''\<rparr>)
   = (RiskManager_init empty_config)\<lparr>day_start_balance := 10000\<rparr>
   \<and> fst (check_trading_allowed ((RiskManager_init empty_config)\<lparr>day_start_balance := 10500\<rparr>)
     \<lparr>balance = 10000, equity = 9800, margin = 100, free_margin = 9700, margin_level = 9800,
      profit = -200, leverage = 100, currency = ''USD''\<rparr>)
   = (RiskManager_init empty_config)\<lparr>day_start_balance := 10500\<rparr>"
  using check_trading_allowed_frame [of "RiskManager_init empty_config"
     "\<lparr>balance = 10000, equity = 9800, margin = 100, free_margin = 9700, margin_level = 9800,
      profit = -200, leverage = 100, currency = ''USD''\<rparr>"]
    check_trading_allowed_frame [of "(RiskManager_init empty_config)\<lparr>day_start_balance := 10500\<rparr>"
     "\<lparr>balance = 10000, equity = 9800, margin = 100, free_margin = 9700, margin_level = 9800,
      profit = -200, leverage = 100, currency = ''USD''\<rparr>"]
  by (simp add: RiskManager_init_def)

section \<open>Properties of the quote aggregator\<close>

text \<open>What \<open>get_live_price\<close> returns and whom it asks, in terms of the three fetches.\<close>

lemma get_live_price_returned:
  "returned (get_live_price self w symbol) =
     (case fetch_from_mt5 w symbol of
        Some q \<Rightarrow> Some q
      | None \<Rightarrow>
          (if str_truthy (alpha_vantage_key self)
           then (case fetch_from_alpha_vantage self w symbol of
                   Some q \<Rightarrow> Some q
                 | None \<Rightarrow> fetch_from_finnhub self w symbol)
           else fetch_from_finnhub self w symbol))"
  by (simp add: get_live_price_def Let_def split: option.splits)

lemma get_live_price_queried:
  "queried (get_live_price self w symbol) =
     (case fetch_from_mt5 w symbol of
        Some q \<Rightarrow> [MT5]
      | None \<Rightarrow>
          (if str_truthy (alpha_vantage_key self)
           then (case fetch_from_alpha_vantage self w symbol of
                   Some q \<Rightarrow> [MT5, AlphaVantage]
                 | None \<Rightarrow> [MT5, AlphaVantage, Finnhub])
           else [MT5, Finnhub]))"
  by (simp add: get_live_price_def Let_def split: option.splits)

text \<open>
  Claim C2, as amended. The order of the sources is fixed by the code (\<open>source_order\<close>).
  For every position \<open>i\<close> in it: when the fetch of every source before \<open>i\<close> yields no
  quote (the call raised, the status was not 200, the data was malformed, or a REST price
  was 0) and the fetch of source \<open>i\<close> yields a structurally valid quote, then
  \<open>get_live_price\<close> returns that quote unchanged, and the sources it has asked are
  exactly those up to \<open>i\<close>: none after it.
\<close>

theorem get_live_price_first_quote:
  assumes "i < length (source_order self)"
    and "\<forall>j<i. fetch_source self w symbol (source_order self ! j) = None"
    and "fetch_source self w symbol (source_order self ! i) = Some q"
    and "structurally_valid q"
  shows "returned (get_live_price self w symbol) = Some q
       \<and> queried (get_live_price self w symbol) = take (Suc i) (source_order self)"
proof (cases "str_truthy (alpha_vantage_key self)")
  case True
  then have so: "source_order self = [MT5, AlphaVantage, Finnhub]"
    by (simp add: source_order_def)
  from assms(1) so have "i = 0 \<or> i = 1 \<or> i = 2" by auto
  then show ?thesis
  proof (elim disjE)
    assume "i = 0"
    with assms(3) so show ?thesis
      by (simp add: fetch_source_def get_live_price_returned get_live_price_queried)
  next
    assume i: "i = 1"
    from assms(2) i so have "fetch_from_mt5 w symbol = None"
      by (simp add: fetch_source_def)
    with assms(3) i so True show ?thesis
      by (simp add: fetch_source_def get_live_price_returned get_live_price_queried)
  next
    assume i: "i = 2"
    have less: "(0::nat) < i" "(1::nat) < i" using i by simp_all
    from assms(2) less(1) have "fetch_source self w symbol (source_order self ! 0) = None"
      by blast
    moreover from assms(2) less(2)
    have "fetch_source self w symbol (source_order self ! 1) = None"
      by blast
    ultimately have "fetch_from_mt5 w symbol = None"
      and "fetch_from_alpha_vantage self w symbol = None"
      using so by (simp_all add: fetch_source_def)
    with assms(3) i so True show ?thesis
      by (simp add: fetch_source_def get_live_price_returned get_live_price_queried)
  qed
next
  case False
  then have so: "source_order self = [MT5, Finnhub]"
    by (simp add: source_order_def)
  from assms(1) so have "i = 0 \<or> i = 1" by auto
  then show ?thesis
  proof (elim disjE)
    assume "i = 0"
    with assms(3) so show ?thesis
      by (simp add: fetch_source_def get_live_price_returned get_live_price_queried)
  next
    assume i: "i = 1"
    from assms(2) i so have "fetch_from_mt5 w symbol = None"
      by (simp add: fetch_source_def)
    with assms(3) i so False show ?thesis
      by (simp add: fetch_source_def get_live_price_returned get_live_price_queried)
  qed
qed

text \<open>The fetches in the world where only Finnhub has a price.\<close>

lemma keyed_order: "source_order keyed_fetcher = [MT5, AlphaVantage, Finnhub]"
  by (simp add: source_order_def keyed_fetcher_def MarketDataFetcher_init_def str_truthy_def
      empty_config_def)

lemma fallback_mt5: "fetch_from_mt5 fallback_world ''XAUUSD'' = None"
  by (simp add: fetch_from_mt5_def fallback_world_def quiet_world_def)

lemma fallback_av: "fetch_from_alpha_vantage keyed_fetcher fallback_world ''XAUUSD'' = None"
  by (simp add: fetch_from_alpha_vantage_def fallback_world_def quiet_world_def)

lemma fallback_fh: "fetch_from_finnhub keyed_fetcher fallback_world ''XAUUSD'' =
    Some \<lparr>price = 2000, bid = 3999 / 2, ask = 4001 / 2, timestamp = 1700000000,
          source = ''Finnhub''\<rparr>"
  by (simp add: fetch_from_finnhub_def fallback_world_def quiet_world_def py_int_def)

theorem get_live_price_first_quote_witness:
  "returned (get_live_price keyed_fetcher fallback_world ''XAUUSD'') =
     Some \<lparr>price = 2000, bid = 3999 / 2, ask = 4001 / 2, timestamp = 1700000000,
           source = ''Finnhub''\<rparr>
   \<and> queried (get_live_price keyed_fetcher fallback_world ''XAUUSD'') =
       [MT5, AlphaVantage, Finnhub]"
proof -
  let ?q = "\<lparr>price = 2000, bid = 3999 / 2, ask = 4001 / 2, timestamp = 1700000000,
           source = ''Finnhub''\<rparr>"
  have 1: "2 < length (source_order keyed_fetcher)" by (simp add: keyed_order)
  have 2: "\<forall>j<2. fetch_source keyed_fetcher fallback_world ''XAUUSD''
      (source_order keyed_fetcher ! j) = None"
    by (simp add: keyed_order fetch_source_def fallback_mt5 fallback_av less_Suc_eq
        numeral_2_eq_2)
  have 3: "fetch_source keyed_fetcher fallback_world ''XAUUSD''
      (source_order keyed_fetcher ! 2) = Some ?q"
    by (simp add: keyed_order fetch_source_def fallback_fh)
  have 4: "structurally_valid ?q" by (simp add: structurally_valid_def)
  show ?thesis
    using get_live_price_first_quote [OF 1 2 3 4] by (simp add: keyed_order)
qed

text \<open>
  Claim C2 as stated fails: a source that answers with a negative price is not treated as
  failed. The terminal is down, Alpha Vantage answers -5 and Finnhub answers a valid
  2000; the claim has the Finnhub quote returned, the code returns the Alpha Vantage
  quote with price -5 and never asks Finnhub.
\<close>

theorem get_live_price_negative_price_counterexample:
  "fetch_source keyed_fetcher negative_price_world ''XAUUSD'' MT5 = None
   \<and> fetch_source keyed_fetcher negative_price_world ''XAUUSD'' AlphaVantage =
       Some \<lparr>price = - 5, bid = - 11 / 2, ask = - 9 / 2, timestamp = 1700000000,
             source = ''AlphaVantage''\<rparr>
   \<and> fetch_source keyed_fetcher negative_price_world ''XAUUSD'' Finnhub =
       Some \<lparr>price = 2000, bid = 3999 / 2, ask = 4001 / 2, timestamp = 1700000000,
             source = ''Finnhub''\<rparr>
   \<and> structurally_valid \<lparr>price = 2000, bid = 3999 / 2, ask = 4001 / 2,
        timestamp = 1700000000, source = ''Finnhub''\<rparr>
   \<and> returned (get_live_price keyed_fetcher negative_price_world ''XAUUSD'') =
       Some \<lparr>price = - 5, bid = - 11 / 2, ask = - 9 / 2, timestamp = 1700000000,
             source = ''AlphaVantage''\<rparr>
   \<and> queried (get_live_price keyed_fetcher negative_price_world ''XAUUSD'') =
       [MT5, AlphaVantage]"
  by (simp add: fetch_source_def fetch_from_mt5_def fetch_from_alpha_vantage_def
      fetch_from_finnhub_def get_live_price_def negative_price_world_def quiet_world_def
      keyed_fetcher_def MarketDataFetcher_init_def empty_config_def str_truthy_def
      structurally_valid_def py_int_def config_get_def Let_def)

text \<open>
  A quote built from a REST price never has its bid above its ask. Only this much is
  stated: in exact arithmetic the bid lies one unit below the ask, but in doubles
  \<^verbatim>\<open>price - 0.5\<close> and \<^verbatim>\<open>price + 0.5\<close> coincide for a price of very large magnitude, so
  the strict order is a fact of the idealisation and not of the code.
\<close>

lemma alpha_vantage_spread:
  "fetch_from_alpha_vantage self w symbol = Some q \<Longrightarrow> \<not> ask q < bid q"
  by (auto simp: fetch_from_alpha_vantage_def
      split: reply.splits if_splits av_data.splits av_price.splits option.splits)

lemma finnhub_spread:
  "fetch_from_finnhub self w symbol = Some q \<Longrightarrow> \<not> ask q < bid q"
  by (auto simp: fetch_from_finnhub_def
      split: reply.splits if_splits finnhub_c.splits)

text \<open>
  Claim C3, as amended. \<open>get_live_price\<close> makes no test of bid against ask. A quote
  built from a REST provider never has bid above ask, by construction. A tick of the connected
  terminal is returned as a quote with the bid and ask of the tick, whatever they are; so
  a returned quote has bid above ask only when it is the terminal's, taken from a tick
  that has bid above ask, and then no other source was asked.
\<close>

theorem crossed_quote_only_from_terminal:
  "(fetch_from_alpha_vantage self w symbol = Some q1 \<longrightarrow> \<not> ask q1 < bid q1)
   \<and> (fetch_from_finnhub self w symbol = Some q2 \<longrightarrow> \<not> ask q2 < bid q2)
   \<and> (returned (get_live_price self w symbol) = Some q \<and> ask q < bid q \<longrightarrow>
        fetch_from_mt5 w symbol = Some q \<and> queried (get_live_price self w symbol) = [MT5])
   \<and> (mt5_initialize w = Returned True \<and> mt5_symbol_info_tick w symbol = Returned (Some t) \<longrightarrow>
        returned (get_live_price self w symbol) =
          Some \<lparr>price = (tick_bid t + tick_ask t) / 2, bid = tick_bid t, ask = tick_ask t,
                timestamp = tick_time t, source = ''MT5''\<rparr>)"
proof (intro conjI impI)
  show "\<not> ask q1 < bid q1" if "fetch_from_alpha_vantage self w symbol = Some q1"
    using that by (rule alpha_vantage_spread)
  show "\<not> ask q2 < bid q2" if "fetch_from_finnhub self w symbol = Some q2"
    using that by (rule finnhub_spread)
  show "returned (get_live_price self w symbol) =
          Some \<lparr>price = (tick_bid t + tick_ask t) / 2, bid = tick_bid t, ask = tick_ask t,
                timestamp = tick_time t, source = ''MT5''\<rparr>"
    if "mt5_initialize w = Returned True \<and> mt5_symbol_info_tick w symbol = Returned (Some t)"
    using that by (simp add: get_live_price_returned fetch_from_mt5_def)
next
  assume a: "returned (get_live_price self w symbol) = Some q \<and> ask q < bid q"
  show "fetch_from_mt5 w symbol = Some q"
  proof (cases "fetch_from_mt5 w symbol")
    case (Some q')
    with a show ?thesis by (simp add: get_live_price_returned)
  next
    case None
    with a have "fetch_from_alpha_vantage self w symbol = Some q
        \<or> fetch_from_finnhub self w symbol = Some q"
      by (auto simp: get_live_price_returned split: if_splits option.splits)
    then have "\<not> ask q < bid q"
      using alpha_vantage_spread finnhub_spread by blast
    with a show ?thesis by simp
  qed
  then show "queried (get_live_price self w symbol) = [MT5]"
    by (simp add: get_live_price_queried)
qed

theorem crossed_quote_only_from_terminal_witness:
  "returned (get_live_price keyed_fetcher crossed_world ''XAUUSD'') =
     Some \<lparr>price = 4001 / 2, bid = 2001, ask = 2000, timestamp = 1700000000,
           source = ''MT5''\<rparr>
   \<and> fetch_from_mt5 crossed_world ''XAUUSD'' =
     Some \<lparr>price = 4001 / 2, bid = 2001, ask = 2000, timestamp = 1700000000,
           source = ''MT5''\<rparr>"
proof -
  let ?t = "\<lparr>tick_bid = 2001, tick_ask = 2000, tick_time = 1700000000\<rparr>"
  let ?q = "\<lparr>price = 4001 / 2, bid = 2001, ask = 2000, timestamp = 1700000000,
           source = ''MT5''\<rparr>"
  have h: "mt5_initialize crossed_world = Returned True
      \<and> mt5_symbol_info_tick crossed_world ''XAUUSD'' = Returned (Some ?t)"
    by (simp add: crossed_world_def quiet_world_def)
  have r: "returned (get_live_price keyed_fetcher crossed_world ''XAUUSD'') = Some ?q"
    using crossed_quote_only_from_terminal [of keyed_fetcher crossed_world "''XAUUSD''"
        _ _ _ ?t] h
    by simp
  have "ask ?q < bid ?q" by simp
  with r show ?thesis
    using crossed_quote_only_from_terminal [of keyed_fetcher crossed_world "''XAUUSD''"
        _ _ ?q ?t]
    by simp
qed

text \<open>
  Claim C3 as stated fails: for a terminal tick with bid 2001 and ask 2000,
  \<open>get_live_price\<close> returns a quote with bid above ask.
\<close>

theorem get_live_price_crossed_counterexample:
  "returned (get_live_price keyed_fetcher crossed_world ''XAUUSD'') =
     Some \<lparr>price = 4001 / 2, bid = 2001, ask = 2000, timestamp = 1700000000,
           source = ''MT5''\<rparr>
   \<and> ask \<lparr>price = 4001 / 2, bid = 2001, ask = 2000, timestamp = 1700000000,
           source = ''MT5''\<rparr>
     < bid \<lparr>price = 4001 / 2, bid = 2001, ask = (2000::real), timestamp = 1700000000,
           source = ''MT5''\<rparr>"
  by (simp add: get_live_price_def fetch_from_mt5_def crossed_world_def quiet_world_def Let_def)

section \<open>Properties of the audit log\<close>








section \<open>Properties of the order lifecycle\<close>

text \<open>
  A rejected submission makes \<open>open_position\<close> return no position, and without a
  position \<open>execute_buy\<close> and \<open>execute_sell\<close> leave the logger as it is.
\<close>

lemma open_position_rejected:
  assumes "rejected_submission ex w symbol order_type volume sl tp comment"
  shows "snd (open_position ex w symbol order_type volume sl tp comment) = None"
proof -
  obtain ex1 ok where i: "initialize ex w = (ex1, ok)"
    by (cases "initialize ex w") auto
  from assms i have ok: "ok" by (simp add: rejected_submission_def)
  from assms i obtain request result
    where rq: "open_position_request ex1 w symbol order_type volume sl tp comment = Some request"
      and rs: "mt5_order_send w request = Returned (Some result)"
      and rc: "retcode result \<noteq> TRADE_RETCODE_DONE w"
    by (auto simp: rejected_submission_def split: option.splits reply.splits)
  show ?thesis
    by (simp add: open_position_def i ok rq rs rc)
qed

lemma execute_buy_logger:
  "snd (open_position (executor self) w symbol ''buy'' (buy_volume self price_data account)
      (buy_stop_loss self price_data) (buy_take_profit self price_data) ''Auto buy'') = None
   \<Longrightarrow> trade_logger (execute_buy self w symbol price_data account) = trade_logger self"
  by (auto simp: execute_buy_def buy_volume_def buy_stop_loss_def buy_take_profit_def Let_def
      split: prod.splits option.splits)

lemma execute_sell_logger:
  "snd (open_position (executor self) w symbol ''sell'' (sell_volume self price_data account)
      (sell_stop_loss self price_data) (sell_take_profit self price_data) ''Auto sell'') = None
   \<Longrightarrow> trade_logger (execute_sell self w symbol price_data account) = trade_logger self"
  by (auto simp: execute_sell_def sell_volume_def sell_stop_loss_def sell_take_profit_def
      Let_def split: prod.splits option.splits)

text \<open>
  Claim C4, as amended. For every rejected order submission \<open>open_position\<close> returns no
  position, and \<open>execute_buy\<close> and \<open>execute_sell\<close> leave both ledgers unchanged: no
  trade row is written, so none with status opened, and no event row is written either.
\<close>

theorem rejected_order_writes_nothing:
  "(rejected_submission ex w symbol order_type volume sl tp comment \<longrightarrow>
      snd (open_position ex w symbol order_type volume sl tp comment) = None)
   \<and> (rejected_submission (executor self) w symbol ''buy'' (buy_volume self price_data account)
        (buy_stop_loss self price_data) (buy_take_profit self price_data) ''Auto buy'' \<longrightarrow>
      trade_logger (execute_buy self w symbol price_data account) = trade_logger self)
   \<and> (rejected_submission (executor self) w symbol ''sell'' (sell_volume self price_data account)
        (sell_stop_loss self price_data) (sell_take_profit self price_data) ''Auto sell'' \<longrightarrow>
      trade_logger (execute_sell self w symbol price_data account) = trade_logger self)"
  using open_position_rejected execute_buy_logger execute_sell_logger by blast

text \<open>The sample order is rejected by the terminal.\<close>

lemma lower_buy: "str_lower ''buy'' = ''buy''"
  by (simp add: str_lower_def lower_char_def)

lemma sample_rejected:
  "rejected_submission (executor fresh_system) rejecting_world ''XAUUSD'' ''buy''
     (buy_volume fresh_system sample_quote sample_account)
     (buy_stop_loss fresh_system sample_quote) (buy_take_profit fresh_system sample_quote)
     ''Auto buy''"
  by (simp add: rejected_submission_def initialize_def open_position_request_def lower_buy
      rejecting_world_def quiet_world_def fresh_system_def TradingSystem_init_def
      MT5Executor_init_def empty_config_def int_truthy_def)

theorem rejected_order_writes_nothing_witness:
  "trade_logger (execute_buy fresh_system rejecting_world ''XAUUSD'' sample_quote sample_account)
     = \<lparr>trades_file = Some [trades_header], events_file = Some [events_header]\<rparr>"
  using rejected_order_writes_nothing [where w = rejecting_world and symbol = "''XAUUSD''"
      and self = fresh_system and price_data = sample_quote and account = sample_account]
    sample_rejected
  by (simp add: fresh_system_def TradingSystem_init_def TradeLogger_init_def
      ensure_files_exist_def)

text \<open>
  Claim C4 as stated fails in its second half: after a rejected submission the event
  ledger holds its header and nothing else, as before the call. No audit event is
  appended.
\<close>

theorem rejected_order_no_audit_event_counterexample:
  "rejected_submission (executor fresh_system) rejecting_world ''XAUUSD'' ''buy'' 10 1990 2020
     ''Auto buy''
   \<and> events_file (trade_logger fresh_system) = Some [events_header]
   \<and> events_file (trade_logger
        (execute_buy fresh_system rejecting_world ''XAUUSD'' sample_quote sample_account))
      = Some [events_header]"
proof -
  have v: "calculate_position_size (RiskManager_init empty_config) 10000 2000 1990 = 10"
    by (simp add: calculate_position_size_def calculate_position_size_try_def py_truediv_def
        py_round2_def round_half_even_def RiskManager_init_def empty_config_def config_get_def
        Let_def)
  have sl: "config_get (cfg_default_sl_points empty_config) 10 = (10::real)"
    and tp: "config_get (cfg_default_tp_points empty_config) 20 = (20::real)"
    by (simp_all add: empty_config_def config_get_def)
  have r: "rejected_submission (executor fresh_system) rejecting_world ''XAUUSD'' ''buy'' 10
      1990 2020 ''Auto buy''"
    by (simp add: rejected_submission_def initialize_def open_position_request_def lower_buy
        rejecting_world_def quiet_world_def fresh_system_def TradingSystem_init_def
        MT5Executor_init_def empty_config_def int_truthy_def)
  have o: "snd (open_position (MT5Executor_init empty_config) rejecting_world ''XAUUSD''
      ''buy'' 10 1990 2020 ''Auto buy'') = None"
    by (simp add: open_position_def initialize_def open_position_request_def lower_buy
        rejecting_world_def quiet_world_def MT5Executor_init_def empty_config_def
        int_truthy_def)
  have e: "events_file (trade_logger fresh_system) = Some [events_header]"
    by (simp add: fresh_system_def TradingSystem_init_def TradeLogger_init_def
        ensure_files_exist_def)
  have x: "trade_logger
      (execute_buy fresh_system rejecting_world ''XAUUSD'' sample_quote sample_account)
      = trade_logger fresh_system"
    using o
    by (auto simp: execute_buy_def fresh_system_def TradingSystem_init_def sample_quote_def
        sample_account_def sl tp v Let_def split: prod.splits option.splits)
  show ?thesis
    using r e by (simp add: x)
qed

end
